theory Spec2Isabelle
  imports Main "HOL-Library.Word" "HOL-Library.AList" "HOL-Library.Char_ord"
    "HOL-Library.List_Lexorder" "HOL-Library.Multiset"
begin

section \<open>Downloader: the chunk computation of download_file\<close>

text \<open>
  Python's \<^verbatim>\<open>range(start, stop, step)\<close> for a positive step: the values
  \<open>start, start + step, ...\<close> below \<open>stop\<close>. In \<^verbatim>\<open>download_file\<close> the step is
  \<open>chunk_size\<close>, which is at least \<open>min_chunk_size > 0\<close>; for a step that is not positive
  the model yields the empty list (Python raises ValueError for step 0 and counts down for
  a negative one; neither is reached from \<^verbatim>\<open>download_file\<close>).
\<close>

function py_range :: "int \<Rightarrow> int \<Rightarrow> int \<Rightarrow> int list" where
  "py_range start stop step =
     (if 0 < step \<and> start < stop then start # py_range (start + step) stop step else [])"
  by pat_completeness auto
termination
  by (relation "measure (\<lambda>(start, stop, step). nat (stop - start))") auto

declare py_range.simps [simp del]

text \<open>
  Lines 140-145 of \<^verbatim>\<open>download_file\<close>, with the local constant \<open>min_chunk_size\<close>
  taken as a parameter:
  \<^verbatim>\<open>
  chunk_size = max(min_chunk_size, min(self.chunk_size, total_size // self.num_threads))
  chunks = []
  for start in range(0, total_size, chunk_size):
      end = min(start + chunk_size - 1, total_size - 1)
      chunks.append((start, end))
  \<close>
  Python's \<open>//\<close> on ints is floor division, as \<open>div\<close> on \<open>int\<close> is.
\<close>

definition effective_chunk_size :: "int \<Rightarrow> int \<Rightarrow> int \<Rightarrow> int \<Rightarrow> int" where
  "effective_chunk_size min_chunk_size chunk_size num_threads total_size =
     max min_chunk_size (min chunk_size (total_size div num_threads))"

definition chunks_of :: "int \<Rightarrow> int \<Rightarrow> (int \<times> int) list" where
  "chunks_of total_size chunk_size =
     map (\<lambda>start. (start, min (start + chunk_size - 1) (total_size - 1)))
       (py_range 0 total_size chunk_size)"

definition compute_chunks_with :: "int \<Rightarrow> int \<Rightarrow> int \<Rightarrow> int \<Rightarrow> (int \<times> int) list" where
  "compute_chunks_with min_chunk_size chunk_size num_threads total_size =
     chunks_of total_size (effective_chunk_size min_chunk_size chunk_size num_threads total_size)"

text \<open>The constant of the source: \<^verbatim>\<open>min_chunk_size = 1024 * 1024\<close>.\<close>

definition min_chunk_size :: int where
  "min_chunk_size = 1024 * 1024"

definition compute_chunks :: "int \<Rightarrow> int \<Rightarrow> int \<Rightarrow> (int \<times> int) list" where
  "compute_chunks chunk_size num_threads total_size =
     compute_chunks_with min_chunk_size chunk_size num_threads total_size"

text \<open>
  What it means for a list of inclusive ranges to partition \<open>[lo, total_size)\<close>: the first
  range starts at \<open>lo\<close>, every range is non-empty, each next range starts right after
  the end of the one before, and the last one ends at \<open>total_size - 1\<close>.
\<close>

fun partitions_from :: "int \<Rightarrow> int \<Rightarrow> (int \<times> int) list \<Rightarrow> bool" where
  "partitions_from lo total_size [] = (lo = total_size)"
| "partitions_from lo total_size ((s, e) # rs) =
     (s = lo \<and> s \<le> e \<and> partitions_from (e + 1) total_size rs)"

text \<open>Every range but the last has at least \<open>m\<close> bytes.\<close>

fun all_but_last_at_least :: "int \<Rightarrow> (int \<times> int) list \<Rightarrow> bool" where
  "all_but_last_at_least m [] = True"
| "all_but_last_at_least m [r] = True"
| "all_but_last_at_least m ((s, e) # r # rs) =
     (m \<le> e - s + 1 \<and> all_but_last_at_least m (r # rs))"

text \<open>The bytes covered by a list of inclusive ranges.\<close>

definition covered :: "(int \<times> int) list \<Rightarrow> int set" where
  "covered rs = (\<Union>(s, e) \<in> set rs. {s..e})"

section \<open>Downloader: files, responses and _download_chunk\<close>

text \<open>
  A file is its list of bytes; the file system maps a path to the file stored there, if
  any. Writing \<open>data\<close> at offset \<open>pos\<close> of a file opened with \<^verbatim>\<open>'rb+'\<close> overwrites in
  place, extends the file when the data runs past its end, and fills the gap with zero
  bytes when \<open>pos\<close> itself lies past the end. It never shortens the file.
\<close>

type_synonym byte = "8 word"
type_synonym path = string
type_synonym filesystem = "path \<rightharpoonup> byte list"

definition write_at :: "byte list \<Rightarrow> nat \<Rightarrow> byte list \<Rightarrow> byte list" where
  "write_at f pos data =
     take pos f @ replicate (pos - length f) 0 @ data @ drop (pos + length data) f"

text \<open>
  The body of the \<^verbatim>\<open>with open(file_path, 'rb+')\<close> block after \<^verbatim>\<open>f.seek(start)\<close>:
  \<^verbatim>\<open>
  for chunk in response.iter_content(chunk_size=16384):
      if chunk:
          f.write(chunk)
  \<close>
  Empty chunks are skipped; each other chunk is written where the previous one ended.
\<close>

fun write_chunks :: "byte list \<Rightarrow> nat \<Rightarrow> byte list list \<Rightarrow> byte list" where
  "write_chunks f pos [] = f"
| "write_chunks f pos (chunk # chunks) =
     (if chunk = [] then write_chunks f pos chunks
      else write_chunks (write_at f pos chunk) (pos + length chunk) chunks)"

text \<open>
  What one \<^verbatim>\<open>session.get\<close> of \<^verbatim>\<open>_download_chunk\<close> meets: the request raises (a
  transport failure or timeout), or the server answers with a status code and a body that
  \<^verbatim>\<open>iter_content\<close> delivers as a list of chunks; the flag says whether the stream
  raises after the last of these chunks (a connection lost half-way).
\<close>

datatype attempt = Raises | Answers int "byte list list" bool

definition max_retries :: nat where
  "max_retries = 3"

text \<open>
  The loop of \<^verbatim>\<open>_download_chunk\<close> (lines 68-89). \<open>responses n\<close> is what the \<open>n\<close>-th
  request meets, \<open>requests\<close> counts the requests made so far. The result is the returned
  flag, the file system and the number of requests made; \<open>None\<close> means that the loop
  does not return.
  \<^verbatim>\<open>
  while retry_count < max_retries:
      try:
          response = self.session.get(url, headers=headers, stream=True, timeout=30)
          if response.status_code in (200, 206):
              with open(file_path, 'rb+') as f:
                  f.seek(start)
                  for chunk in response.iter_content(chunk_size=16384): ...
              return True
      except Exception as e:
          retry_count += 1
          if retry_count < max_retries:
              time.sleep(0.5)
              continue
  return False
  \<close>
  \<^verbatim>\<open>open(file_path, 'rb+')\<close> raises when the file does not exist and \<^verbatim>\<open>f.seek\<close>
  raises on a negative offset; both land in the \<^verbatim>\<open>except\<close> branch. Only that branch
  increments \<open>retry_count\<close>: an answer with another status than 200 or 206 falls out of
  the \<^verbatim>\<open>try\<close> and the loop goes round with \<open>retry_count\<close> unchanged.
\<close>

partial_function (option) download_chunk_loop ::
  "(nat \<Rightarrow> attempt) \<Rightarrow> int \<Rightarrow> path \<Rightarrow> nat \<Rightarrow> nat \<Rightarrow> filesystem
     \<Rightarrow> (bool \<times> filesystem \<times> nat) option" where
  "download_chunk_loop responses start file_path requests retry_count fs =
     (if retry_count < max_retries then
        (case responses requests of
           Raises \<Rightarrow>
             download_chunk_loop responses start file_path (requests + 1) (retry_count + 1) fs
         | Answers status_code chunks breaks \<Rightarrow>
             if status_code = 200 \<or> status_code = 206 then
               (case (if start < 0 then None else fs file_path) of
                  None \<Rightarrow>
                    download_chunk_loop responses start file_path (requests + 1)
                      (retry_count + 1) fs
                | Some f \<Rightarrow>
                    if breaks then
                      download_chunk_loop responses start file_path (requests + 1)
                        (retry_count + 1)
                        (fs(file_path \<mapsto> write_chunks f (nat start) chunks))
                    else
                      Some (True, fs(file_path \<mapsto> write_chunks f (nat start) chunks),
                            requests + 1))
             else download_chunk_loop responses start file_path (requests + 1) retry_count fs)
      else Some (False, fs, requests))"

text \<open>
  \<^verbatim>\<open>_download_chunk(url, start, end, file_path, pbar)\<close>: the server of the URL gives,
  for the byte range of the \<^verbatim>\<open>Range\<close> header, the sequence of what the requests meet.
  The progress bar is left out.
\<close>

definition download_chunk ::
  "(int \<times> int \<Rightarrow> nat \<Rightarrow> attempt) \<Rightarrow> int \<Rightarrow> int \<Rightarrow> path \<Rightarrow> filesystem
     \<Rightarrow> (bool \<times> filesystem \<times> nat) option" where
  "download_chunk server start end' file_path fs =
     download_chunk_loop (server (start, end')) start file_path 0 0 fs"

section \<open>Downloader: download_file and _download_single\<close>

text \<open>
  The \<^verbatim>\<open>content-length\<close> header of an answer: absent, not a decimal integer (then
  \<^verbatim>\<open>int(...)\<close> raises ValueError), or an integer. The HEAD request raises or answers
  with a status code and that header.
\<close>

datatype content_length = Missing | Malformed | Length int

datatype head_result = HeadRaises | HeadAnswers int content_length

record web =
  head_response :: head_result
  range_responses :: "int \<times> int \<Rightarrow> nat \<Rightarrow> attempt"
  get_response :: attempt
  get_length :: content_length

text \<open>\<^verbatim>\<open>if os.path.exists(save_path): os.remove(save_path)\<close>\<close>

definition remove_if_exists :: "filesystem \<Rightarrow> path \<Rightarrow> filesystem" where
  "remove_if_exists fs p = fs(p := None)"

text \<open>
  \<^verbatim>\<open>_download_single\<close> (lines 240-263): one GET without a range;
  \<^verbatim>\<open>raise_for_status\<close> raises on a status from 400 to 599; the file is opened with
  \<^verbatim>\<open>'wb'\<close> (created or emptied) and the chunks are written in order. Every exception
  removes the destination and returns False.
\<close>

definition download_single :: "web \<Rightarrow> path \<Rightarrow> filesystem \<Rightarrow> bool \<times> filesystem" where
  "download_single w save_path fs =
     (case get_response w of
        Raises \<Rightarrow> (False, remove_if_exists fs save_path)
      | Answers status_code chunks breaks \<Rightarrow>
          if 400 \<le> status_code \<and> status_code < 600 then (False, remove_if_exists fs save_path)
          else if get_length w = Malformed then (False, remove_if_exists fs save_path)
          else if breaks
            then (False, remove_if_exists (fs(save_path \<mapsto> write_chunks [] 0 chunks)) save_path)
            else (True, fs(save_path \<mapsto> write_chunks [] 0 chunks)))"

text \<open>
  The chunk tasks of the thread pool, run one after the other in the order of submission
  (one of the schedules of the pool). A task that does not return keeps the pool, and so
  \<^verbatim>\<open>download_file\<close>, from returning.
\<close>

fun run_chunks ::
  "(int \<times> int \<Rightarrow> nat \<Rightarrow> attempt) \<Rightarrow> path \<Rightarrow> (int \<times> int) list \<Rightarrow> filesystem
     \<Rightarrow> (bool list \<times> filesystem) option" where
  "run_chunks server save_path [] fs = Some ([], fs)"
| "run_chunks server save_path ((start, end') # chunks) fs =
     (case download_chunk server start end' save_path fs of
        None \<Rightarrow> None
      | Some (ok, fs', n) \<Rightarrow>
          (case run_chunks server save_path chunks fs' of
             None \<Rightarrow> None
           | Some (results, fs'') \<Rightarrow> Some (ok # results, fs'')))"

text \<open>
  \<^verbatim>\<open>download_file\<close> (lines 122-171), for a downloader with \<open>num_threads\<close> and
  \<open>chunk_size\<close>:
  \<^verbatim>\<open>
  try:
      response = self.session.head(url, allow_redirects=True, timeout=30)
      if response.status_code != 200:
          return False
      total_size = int(response.headers.get('content-length', 0))
      if total_size == 0:
          return self._download_single(url, save_path)
      with open(save_path, 'wb') as f:
          f.truncate(total_size)
      ... chunks ...
      with ThreadPoolExecutor(max_workers=self.num_threads) as executor:
          ...
          results = [f.result() for f in futures]
          return all(results)
  except Exception as e:
      if os.path.exists(save_path):
          os.remove(save_path)
      return False
  \<close>
  The exceptions of the \<^verbatim>\<open>try\<close> block are: the HEAD request raising, a malformed
  length, \<^verbatim>\<open>f.truncate\<close> of a size that is negative or greater than the largest file
  the system accepts, \<open>max_file_size\<close> (after \<^verbatim>\<open>open\<close> has created the file), the
  division by \<open>num_threads = 0\<close> and a pool of a negative size. The destination
  directory is taken to exist, so that \<^verbatim>\<open>open(save_path, 'wb')\<close> succeeds.
\<close>

definition download_file ::
  "int \<Rightarrow> int \<Rightarrow> int \<Rightarrow> web \<Rightarrow> path \<Rightarrow> filesystem \<Rightarrow> (bool \<times> filesystem) option" where
  "download_file num_threads chunk_size max_file_size w save_path fs =
     (case head_response w of
        HeadRaises \<Rightarrow> Some (False, remove_if_exists fs save_path)
      | HeadAnswers status_code len \<Rightarrow>
          if status_code \<noteq> 200 then Some (False, fs)
          else
            (case len of
               Malformed \<Rightarrow> Some (False, remove_if_exists fs save_path)
             | Missing \<Rightarrow> Some (download_single w save_path fs)
             | Length total_size \<Rightarrow>
                 if total_size = 0 then Some (download_single w save_path fs)
                 else if total_size < 0 \<or> max_file_size < total_size
                   then Some (False, remove_if_exists (fs(save_path \<mapsto> [])) save_path)
                 else if num_threads \<le> 0
                   then Some (False,
                     remove_if_exists (fs(save_path \<mapsto> replicate (nat total_size) 0))
                       save_path)
                 else
                   (case run_chunks (range_responses w) save_path
                           (compute_chunks chunk_size num_threads total_size)
                           (fs(save_path \<mapsto> replicate (nat total_size) 0)) of
                      None \<Rightarrow> None
                    | Some (results, fs') \<Rightarrow> Some (list_all (\<lambda>ok. ok) results, fs'))))"

text \<open>What a caller sees of a call: the returned flag and the file at a path.\<close>

definition chunk_outcome ::
  "path \<Rightarrow> (bool \<times> filesystem \<times> nat) option \<Rightarrow> (bool \<times> byte list option) option" where
  "chunk_outcome p r = map_option (\<lambda>(ok, fs, n). (ok, fs p)) r"

definition file_outcome ::
  "path \<Rightarrow> (bool \<times> filesystem) option \<Rightarrow> (bool \<times> byte list option) option" where
  "file_outcome p r = map_option (\<lambda>(ok, fs). (ok, fs p)) r"

subsection \<open>Concrete servers and files\<close>

text \<open>A server that answers every request with status 404 and an empty body.\<close>

definition always_404 :: "int \<times> int \<Rightarrow> nat \<Rightarrow> attempt" where
  "always_404 = (\<lambda>range n. Answers 404 [] False)"

text \<open>A server none of whose connections succeeds.\<close>

definition always_raises :: "int \<times> int \<Rightarrow> nat \<Rightarrow> attempt" where
  "always_raises = (\<lambda>range n. Raises)"

text \<open>
  A server whose first connection fails and that honours the range 2-3 from the second
  request on, with status 206 and the two bytes 7 and 8.
\<close>

definition flaky_server :: "int \<times> int \<Rightarrow> nat \<Rightarrow> attempt" where
  "flaky_server = (\<lambda>range n. if n = 0 then Raises else Answers 206 [ [7], [8] ] False)"

text \<open>
  A server that ignores the \<^verbatim>\<open>Range\<close> header and answers with status 200 and the whole
  resource of four bytes.
\<close>

definition whole_body_server :: "int \<times> int \<Rightarrow> nat \<Rightarrow> attempt" where
  "whole_body_server = (\<lambda>range n. Answers 200 [ [1, 2, 3, 4] ] False)"

definition four_zero_bytes :: filesystem where
  "four_zero_bytes = [''f'' \<mapsto> [0, 0, 0, 0]]"

text \<open>
  A resource of four bytes whose HEAD request succeeds and whose ranged requests all fail
  with a transport error.
\<close>

definition failing_web :: web where
  "failing_web =
     \<lparr>head_response = HeadAnswers 200 (Length 4), range_responses = always_raises,
      get_response = Raises, get_length = Missing\<rparr>"

section \<open>WPSVersionCrawler: records and the version ledger\<close>

text \<open>
  The values the crawler stores in a version record are strings and \<^verbatim>\<open>None\<close>. A record
  is a Python dict, modelled as an association list in insertion order; the ledger maps a
  platform key to its list of records.
\<close>

datatype jval = JNull | JStr string

type_synonym dict = "(string \<times> jval) list"

type_synonym ledger = "(string \<times> dict list) list"

text \<open>\<^verbatim>\<open>d.get(k)\<close> is \<^verbatim>\<open>None\<close> for a missing key; \<^verbatim>\<open>d.get(k, default)\<close>.\<close>

definition dict_get :: "dict \<Rightarrow> string \<Rightarrow> jval" where
  "dict_get d k = (case map_of d k of None \<Rightarrow> JNull | Some v \<Rightarrow> v)"



text \<open>\<^verbatim>\<open>str.lower\<close> on ASCII letters: an upper-case letter gets bit 5 set.\<close>

fun lower_char :: "char \<Rightarrow> char" where
  "lower_char (Char b0 b1 b2 b3 b4 b5 b6 b7) =
     (if CHR ''A'' \<le> Char b0 b1 b2 b3 b4 b5 b6 b7 \<and> Char b0 b1 b2 b3 b4 b5 b6 b7 \<le> CHR ''Z''
      then Char b0 b1 b2 b3 b4 True b6 b7
      else Char b0 b1 b2 b3 b4 b5 b6 b7)"

definition lower :: "string \<Rightarrow> string" where
  "lower s = map lower_char s"

datatype error = FileNotFoundError | OSError | JSONDecodeError | TypeError | RequestException
  | NameError

text \<open>
  The history file on disk: absent; present but not readable; readable but not JSON;
  or holding a ledger. The crawler is its in-memory ledger together with that file.
\<close>

datatype hist_file = Absent | Unreadable | Unparsable | Stored ledger

record crawler =
  version_history :: ledger
  history_file :: hist_file

definition empty_ledger :: ledger where
  "empty_ledger = [(''windows'', []), (''macos'', [])]"

text \<open>
  The body of the \<^verbatim>\<open>try\<close> of \<^verbatim>\<open>_load_history\<close>:
  \<^verbatim>\<open>with open(self.history_file, 'r', encoding='utf-8') as f: ... json.load(f)\<close>
\<close>

definition read_history :: "hist_file \<Rightarrow> error + ledger" where
  "read_history f =
     (case f of
        Absent \<Rightarrow> Inl FileNotFoundError
      | Unreadable \<Rightarrow> Inl OSError
      | Unparsable \<Rightarrow> Inl JSONDecodeError
      | Stored l \<Rightarrow> Inr l)"

text \<open>
  \<^verbatim>\<open>_load_history\<close> (lines 322-332):
  \<^verbatim>\<open>
  if os.path.exists(self.history_file):
      try:
          with open(self.history_file, 'r', encoding='utf-8') as f:
              self.version_history = json.load(f)
      except Exception as e:
          self.version_history = {"windows": [], "macos": []}
  else:
      self.version_history = {"windows": [], "macos": []}
  \<close>
\<close>

definition load_history :: "crawler \<Rightarrow> error + crawler" where
  "load_history c =
     (if history_file c \<noteq> Absent then
        (case read_history (history_file c) of
           Inr l \<Rightarrow> Inr (c\<lparr>version_history := l\<rparr>)
         | Inl e \<Rightarrow> Inr (c\<lparr>version_history := empty_ledger\<rparr>))
      else Inr (c\<lparr>version_history := empty_ledger\<rparr>))"










text \<open>\<^verbatim>\<open>self.version_history[platform_key]\<close>, and the list being created when missing.\<close>

definition records_of :: "ledger \<Rightarrow> string \<Rightarrow> dict list" where
  "records_of h platform_key = (case map_of h platform_key of None \<Rightarrow> [] | Some rs \<Rightarrow> rs)"








subsection \<open>Concrete ledgers\<close>







section \<open>WPSVersionCrawler: verifying a URL and deciding on an update\<close>

text \<open>
  \<^verbatim>\<open>_verify_download_url\<close> (lines 810-816); \<open>heads url\<close> is what a HEAD request of
  the URL meets.
  \<^verbatim>\<open>
  try:
      response = requests.head(url, allow_redirects=True, timeout=5)
      return response.status_code == 200
  except:
      return False
  \<close>
\<close>

definition requests_head :: "head_result \<Rightarrow> error + int" where
  "requests_head r =
     (case r of
        HeadRaises \<Rightarrow> Inl RequestException
      | HeadAnswers status_code len \<Rightarrow> Inr status_code)"

definition verify_download_url :: "(string \<Rightarrow> head_result) \<Rightarrow> string \<Rightarrow> error + bool" where
  "verify_download_url heads url =
     (case requests_head (heads url) of
        Inr status_code \<Rightarrow> Inr (status_code = 200)
      | Inl e \<Rightarrow> Inr False)"

definition verified :: "(string \<Rightarrow> head_result) \<Rightarrow> string \<Rightarrow> bool" where
  "verified heads url = (verify_download_url heads url = Inr True)"

text \<open>
  The local version file (\<^verbatim>\<open>versions/windows/windows.yaml\<close>, \<^verbatim>\<open>versions/macos/macos.yaml\<close>): absent; not
  readable as YAML (the exception is logged and \<open>local_info\<close> stays \<^verbatim>\<open>None\<close>); or
  loaded as a dict. \<^verbatim>\<open>if local_info and ...\<close> tests that the dict is there and not
  empty.
\<close>

datatype yaml_file = NoFile | BadFile | Yaml dict

definition load_local :: "yaml_file \<Rightarrow> dict option" where
  "load_local y = (case y of NoFile \<Rightarrow> None | BadFile \<Rightarrow> None | Yaml d \<Rightarrow> Some d)"

definition truthy :: "dict option \<Rightarrow> bool" where
  "truthy local_info = (case local_info of None \<Rightarrow> False | Some d \<Rightarrow> d \<noteq> [])"

definition local_dict :: "dict option \<Rightarrow> dict" where
  "local_dict local_info = (case local_info of None \<Rightarrow> [] | Some d \<Rightarrow> d)"

text \<open>
  What a version getter does in the end: it returns the local record (the skip), it returns
  a record with version Unknown, it passes a fresh record to \<^verbatim>\<open>_update_history\<close> and
  returns it, or it falls off its loop. Next to it stands the list of the calls of
  \<^verbatim>\<open>download_file\<close> it made, as pairs of URL and destination.
\<close>

datatype reason = NoValidLink | NoVersionOrLink | Raised error

datatype final = ReturnLocal dict | ReturnUnknown reason | Recorded dict | ReturnNone

text \<open>\<^verbatim>\<open>_generate_filename\<close> (lines 366-377).\<close>

definition generate_filename ::
  "string \<Rightarrow> string \<Rightarrow> string option \<Rightarrow> string option \<Rightarrow> string" where
  "generate_filename platform version build_number release_date =
     (if lower platform = ''windows'' then
        (case release_date of
           Some d \<Rightarrow> if d \<noteq> [] then ''WPS_Office_'' @ version @ ''_'' @ d @ ''.exe''
                     else ''WPS_Office_'' @ version @ ''.exe''
         | None \<Rightarrow> ''WPS_Office_'' @ version @ ''.exe'')
      else if lower platform = ''macos'' then
        (let b = (case build_number of None \<Rightarrow> ''None'' | Some b \<Rightarrow> b) in
         case release_date of
           Some d \<Rightarrow> if d \<noteq> [] then ''WPS_Office_'' @ version @ ''_'' @ b @ ''_'' @ d @ ''.zip''
                     else ''WPS_Office_'' @ version @ ''_'' @ b @ ''.zip''
         | None \<Rightarrow> ''WPS_Office_'' @ version @ ''_'' @ b @ ''.zip'')
      else [])"

subsection \<open>_get_windows_version\<close>

text \<open>
  The surroundings of \<^verbatim>\<open>_get_windows_version\<close> (lines 393-572): the local version
  file; the page of the software directory (the request raises, or answers with a status
  and, when the version pattern matches, its second group); what the visit of the vendor's
  site captured (an installer URL and the version in it, if any); the HEAD answers by URL;
  and the clock.
\<close>

definition windows_download_base_url :: string where
  "windows_download_base_url = ''https://official-package.wpscdn.cn/wps/download''"

datatype baoku = BaokuRaises | BaokuPage int "string option"

record win_env =
  win_yaml :: yaml_file
  baoku_page :: baoku
  site_capture :: "(string \<times> string option) option"
  win_heads :: "string \<Rightarrow> head_result"
  win_now :: string

text \<open>\<^verbatim>\<open>not latest_version\<close> and \<^verbatim>\<open>latest_version or "Unknown"\<close>.\<close>

definition falsy :: "string option \<Rightarrow> bool" where
  "falsy s = (case s of None \<Rightarrow> True | Some v \<Rightarrow> v = [])"

definition or_unknown :: "string option \<Rightarrow> string" where
  "or_unknown s = (case s of None \<Rightarrow> ''Unknown'' | Some v \<Rightarrow> if v = [] then ''Unknown'' else v)"

text \<open>
  Lines 416-439: the pair \<open>(latest_version, download_url)\<close> after the first
  discovery; the 64-bit URL is tried before the 32-bit one.
\<close>

definition baoku_discovery :: "win_env \<Rightarrow> string option \<times> string option" where
  "baoku_discovery env =
     (case baoku_page env of
        BaokuRaises \<Rightarrow> (None, None)
      | BaokuPage status_code m \<Rightarrow>
          if status_code = 200 then
            (case m of
               None \<Rightarrow> (None, None)
             | Some latest_version \<Rightarrow>
                 (Some latest_version,
                  if verified (win_heads env)
                       (windows_download_base_url @ ''/WPS_Setup_X64_'' @ latest_version @ ''.exe'')
                  then Some (windows_download_base_url @ ''/WPS_Setup_X64_'' @ latest_version
                               @ ''.exe'')
                  else if verified (win_heads env)
                       (windows_download_base_url @ ''/WPS_Setup_'' @ latest_version @ ''.exe'')
                  then Some (windows_download_base_url @ ''/WPS_Setup_'' @ latest_version
                               @ ''.exe'')
                  else None))
          else (None, None))"

text \<open>Lines 442-493: the second discovery, entered only without a version.\<close>

definition site_discovery ::
  "win_env \<Rightarrow> string option \<times> string option \<Rightarrow> string option \<times> string option" where
  "site_discovery env found =
     (case site_capture env of
        None \<Rightarrow> found
      | Some (url, v) \<Rightarrow>
          (case v of None \<Rightarrow> (fst found, Some url) | Some ver \<Rightarrow> (Some ver, Some url)))"

text \<open>
  Lines 496-544, entered only without a version. The comparison with the local record
  stands inside the branch where the 32-bit URL of the built-in version failed and the
  64-bit one passed. The names \<^verbatim>\<open>url_64\<close> and \<^verbatim>\<open>url_32\<close> are bound nowhere: the
  argument of \<^verbatim>\<open>download_file(url_64, save_path)\<close> and the condition of
  \<^verbatim>\<open>elif self._verify_download_url(url_32)\<close> raise NameError, which the outer
  \<^verbatim>\<open>except\<close> turns into the record with version Unknown.
\<close>

definition windows_fallback :: "win_env \<Rightarrow> dict option \<Rightarrow> final" where
  "windows_fallback env local_info =
     (if \<not> verified (win_heads env)
             (windows_download_base_url @ ''/WPS_Setup_'' @ ''21915'' @ ''.exe'')
      then
        if \<not> verified (win_heads env)
               (windows_download_base_url @ ''/WPS_Setup_X64_'' @ ''21915'' @ ''.exe'')
        then ReturnUnknown NoValidLink
        else if truthy local_info \<and> dict_get (local_dict local_info) ''version'' = JStr ''21915''
        then ReturnLocal (local_dict local_info)
        else ReturnUnknown (Raised NameError)
      else ReturnUnknown (Raised NameError))"

text \<open>Lines 546-551: the record built when a version was discovered.\<close>

definition windows_result :: "string option \<Rightarrow> string option \<Rightarrow> string \<Rightarrow> dict" where
  "windows_result latest_version download_url now =
     [(''platform'', JStr ''Windows''),
      (''version'', JStr (or_unknown latest_version)),
      (''download_url'', case download_url of None \<Rightarrow> JNull | Some u \<Rightarrow> JStr u),
      (''update_time'', JStr now)]"

definition get_windows_version :: "win_env \<Rightarrow> final \<times> (string \<times> string) list" where
  "get_windows_version env =
     (let local_info = load_local (win_yaml env);
          found = baoku_discovery env;
          found = (if falsy (fst found) then site_discovery env found else found)
      in if falsy (fst found) then (windows_fallback env local_info, [])
         else (Recorded (windows_result (fst found) (snd found) (win_now env)), []))"

text \<open>
  The local record already has version 21915, the software directory reports 21915 and
  the installer URLs answer 200.
\<close>

definition win_same_version :: win_env where
  "win_same_version =
     \<lparr>win_yaml = Yaml [(''platform'', JStr ''Windows''), (''version'', JStr ''21915'')],
      baoku_page = BaokuPage 200 (Some ''21915''),
      site_capture = None,
      win_heads = (\<lambda>url. HeadAnswers 200 Missing),
      win_now = ''2025-06-20 10:00:00''\<rparr>"

subsection \<open>_get_macos_version\<close>

text \<open>
  One visit of the macOS page (lines 592-792): it raises (also when the version text
  cannot be parsed); it finds no version text; or it yields version, build number,
  release date and, when the button and a captured link are there, the download URL.
  \<open>mac_pages n\<close> is the visit made with \<open>retry_count = n\<close>. The download engine and the
  hash of a file are taken as given functions.
\<close>

datatype mac_page = PageRaises | NoVersionText
  | Parsed string string "string option" "string option"

record mac_env =
  mac_yaml :: yaml_file
  mac_pages :: "nat \<Rightarrow> mac_page"
  download_ok :: "string \<Rightarrow> string \<Rightarrow> bool"
  file_hash :: "string \<Rightarrow> string"
  mac_now :: string

text \<open>
  Lines 689-692:
  \<^verbatim>\<open>
  if local_info and local_info.get("version") == version and ... == build_number:
      return local_info
  \<close>
\<close>

definition macos_skip :: "dict option \<Rightarrow> string \<Rightarrow> string \<Rightarrow> bool" where
  "macos_skip local_info version build_number =
     (truthy local_info \<and> dict_get (local_dict local_info) ''version'' = JStr version
      \<and> dict_get (local_dict local_info) ''build_number'' = JStr build_number)"

definition macos_result ::
  "string \<Rightarrow> string \<Rightarrow> string \<Rightarrow> string \<Rightarrow> string option \<Rightarrow> (string \<times> string) option
     \<Rightarrow> dict" where
  "macos_result version build_number download_url now release_date downloaded =
     [(''platform'', JStr ''macOS''), (''version'', JStr version),
      (''build_number'', JStr build_number), (''download_url'', JStr download_url),
      (''update_time'', JStr now)]
     @ (case release_date of
          None \<Rightarrow> []
        | Some d \<Rightarrow> if d = [] then [] else [(''release_date'', JStr d)])
     @ (case downloaded of
          None \<Rightarrow> []
        | Some (save_path, h) \<Rightarrow> [(''local_file'', JStr save_path), (''file_hash'', JStr h)])"

function macos_loop ::
  "mac_env \<Rightarrow> dict option \<Rightarrow> nat \<Rightarrow> final \<times> (string \<times> string) list" where
  "macos_loop env local_info retry_count =
     (if retry_count < max_retries then
        (case mac_pages env retry_count of
           PageRaises \<Rightarrow>
             if retry_count + 1 < max_retries then macos_loop env local_info (retry_count + 1)
             else (ReturnUnknown (Raised RequestException), [])
         | NoVersionText \<Rightarrow>
             if retry_count + 1 < max_retries then macos_loop env local_info (retry_count + 1)
             else (ReturnUnknown NoVersionOrLink, [])
         | Parsed version build_number release_date download_url \<Rightarrow>
             if macos_skip local_info version build_number
             then (ReturnLocal (local_dict local_info), [])
             else
               (case download_url of
                  None \<Rightarrow>
                    if retry_count + 1 < max_retries
                    then macos_loop env local_info (retry_count + 1)
                    else (ReturnUnknown NoVersionOrLink, [])
                | Some url \<Rightarrow>
                    (let save_path = ''downloads/macos/'' @
                           generate_filename ''macOS'' version (Some build_number) release_date
                     in (Recorded (macos_result version build_number url (mac_now env)
                            release_date
                            (if download_ok env url save_path
                             then Some (save_path, file_hash env save_path) else None)),
                         [(url, save_path)]))))
      else (ReturnNone, []))"
  by pat_completeness auto
termination
  by (relation "measure (\<lambda>(env, local_info, retry_count). max_retries - retry_count)") auto

declare macos_loop.simps [simp del]

definition get_macos_version :: "mac_env \<Rightarrow> final \<times> (string \<times> string) list" where
  "get_macos_version env = macos_loop env (load_local (mac_yaml env)) 0"

subsection \<open>Properties of the chunk computation\<close>

lemma chunks_of_unfold:
  "chunks_of total_size cs =
     (if 0 < cs \<and> 0 < total_size
      then (0, min (cs - 1) (total_size - 1)) #
           map (\<lambda>start. (start, min (start + cs - 1) (total_size - 1))) (py_range cs total_size cs)
      else [])"
  by (simp add: chunks_of_def py_range.simps [of 0])

lemma partitions_from_range:
  "0 < cs \<Longrightarrow> start \<le> total_size \<Longrightarrow>
   partitions_from start total_size
     (map (\<lambda>s. (s, min (s + cs - 1) (total_size - 1))) (py_range start total_size cs))"
proof (induction start total_size cs rule: py_range.induct)
  case (1 start stop step)
  show ?case
  proof (cases "start < stop")
    case True
    then have ih: "partitions_from (start + step) stop
        (map (\<lambda>s. (s, min (s + step - 1) (stop - 1))) (py_range (start + step) stop step))"
      if "start + step \<le> stop"
      using 1 that by simp
    show ?thesis
    proof (cases "start + step \<le> stop")
      case le: True
      then have "min (start + step - 1) (stop - 1) = start + step - 1" by simp
      with True le ih 1(2) show ?thesis
        by (simp add: py_range.simps [of start])
    next
      case gt: False
      then have m: "min (start + step - 1) (stop - 1) = stop - 1" by simp
      from gt have "py_range (start + step) stop step = []"
        by (simp add: py_range.simps [of "start + step"])
      with True m 1(2) show ?thesis
        by (simp add: py_range.simps [of start])
    qed
  next
    case False
    with 1(3) have "start = stop" by simp
    then show ?thesis by (simp add: py_range.simps [of stop])
  qed
qed

lemma all_but_last_range:
  "0 < cs \<Longrightarrow> m \<le> cs \<Longrightarrow>
   all_but_last_at_least m
     (map (\<lambda>s. (s, min (s + cs - 1) (total_size - 1))) (py_range start total_size cs))"
proof (induction start total_size cs rule: py_range.induct)
  case (1 start stop step)
  show ?case
  proof (cases "start < stop")
    case True
    note lt = this
    show ?thesis
    proof (cases "start + step < stop")
      case True
      then have nxt: "py_range (start + step) stop step =
          (start + step) # py_range (start + step + step) stop step"
        using 1(2) by (simp add: py_range.simps [of "start + step"])
      from True have "min (start + step - 1) (stop - 1) = start + step - 1" by simp
      moreover have "all_but_last_at_least m
          (map (\<lambda>s. (s, min (s + step - 1) (stop - 1))) (py_range (start + step) stop step))"
        using 1 lt by simp
      ultimately show ?thesis
        using lt 1(2,3) nxt by (simp add: py_range.simps [of start])
    next
      case False
      then have "py_range (start + step) stop step = []"
        by (simp add: py_range.simps [of "start + step"])
      with lt 1(2) show ?thesis
        by (simp add: py_range.simps [of start])
    qed
  next
    case False
    then show ?thesis by (simp add: py_range.simps [of start])
  qed
qed

lemma partitions_from_covered:
  "partitions_from lo total_size rs \<Longrightarrow> lo \<le> total_size \<and> covered rs = {lo..<total_size}"
proof (induction rs arbitrary: lo)
  case Nil
  then show ?case by (simp add: covered_def)
next
  case (Cons r rs)
  obtain s e where r: "r = (s, e)" by (cases r)
  from Cons.prems r have p: "s = lo" "s \<le> e" "partitions_from (e + 1) total_size rs"
    by simp_all
  from Cons.IH [OF p(3)] have ih: "e + 1 \<le> total_size" "covered rs = {e + 1..<total_size}"
    by simp_all
  have "covered (r # rs) = {s..e} \<union> covered rs"
    by (simp add: covered_def r)
  also have "\<dots> = {lo..<total_size}"
    using p ih by auto
  finally show ?case using p ih by simp
qed

lemma effective_chunk_size_ge: "m \<le> effective_chunk_size m c n t"
  by (simp add: effective_chunk_size_def)

text \<open>
  C1: for every \<open>total_size > 0\<close>, every desired \<open>chunk_size\<close> and every positive
  \<open>num_threads\<close>, the ranges computed by \<^verbatim>\<open>download_file\<close> partition
  \<open>[0, total_size)\<close>: they are ordered, contiguous and non-overlapping, they cover exactly
  \<open>[0, total_size)\<close>, and every range but possibly the last has at least
  \<open>min_chunk_size\<close> (1 MiB) bytes.
\<close>

theorem compute_chunks_partition:
  assumes "0 < total_size" and "0 < num_threads"
  shows "partitions_from 0 total_size (compute_chunks chunk_size num_threads total_size)
       \<and> covered (compute_chunks chunk_size num_threads total_size) = {0..<total_size}
       \<and> all_but_last_at_least (1024 * 1024) (compute_chunks chunk_size num_threads total_size)"
proof -
  define cs where "cs = effective_chunk_size min_chunk_size chunk_size num_threads total_size"
  have ge: "min_chunk_size \<le> cs"
    unfolding cs_def by (rule effective_chunk_size_ge)
  then have pos: "0 < cs" by (simp add: min_chunk_size_def)
  have eq: "compute_chunks chunk_size num_threads total_size =
      map (\<lambda>s. (s, min (s + cs - 1) (total_size - 1))) (py_range 0 total_size cs)"
    by (simp add: compute_chunks_def compute_chunks_with_def chunks_of_def cs_def)
  have p: "partitions_from 0 total_size (compute_chunks chunk_size num_threads total_size)"
    unfolding eq using pos assms(1) by (intro partitions_from_range) simp_all
  have a: "all_but_last_at_least (1024 * 1024) (compute_chunks chunk_size num_threads total_size)"
    unfolding eq using pos ge by (intro all_but_last_range) (simp_all add: min_chunk_size_def)
  from partitions_from_covered [OF p] p a show ?thesis by simp
qed

theorem compute_chunks_partition_witness:
  "0 < (3000000::int) \<and> 0 < (16::int)
   \<and> partitions_from 0 3000000 (compute_chunks 4194304 16 3000000)
   \<and> covered (compute_chunks 4194304 16 3000000) = {0..<3000000}
   \<and> all_but_last_at_least (1024 * 1024) (compute_chunks 4194304 16 3000000)"
  using compute_chunks_partition [of 3000000 16 4194304] by simp

text \<open>
  C3, as stated: for \<open>total_size = 10,000,000\<close>, desired \<open>chunk_size = 6,000,000\<close>,
  \<open>max_parallelism = 16\<close> and \<open>min_chunk_size = 1,000,000\<close> the chunk computation
  produces exactly the 2 ranges \<open>[0, 5999999]\<close> and \<open>[6000000, 9999999]\<close>. It does not:
  neither with the minimum of the claim nor with the source's own minimum of 1 MiB.
\<close>

theorem compute_chunks_scenario_counterexample:
  "compute_chunks_with 1000000 6000000 16 10000000 \<noteq> [(0, 5999999), (6000000, 9999999)]
   \<and> compute_chunks 6000000 16 10000000 \<noteq> [(0, 5999999), (6000000, 9999999)]"
  by (simp add: compute_chunks_def min_chunk_size_def compute_chunks_with_def
      effective_chunk_size_def chunks_of_def py_range.simps)

text \<open>
  C3, amended: for the same inputs the effective chunk size is the minimum chunk size
  (\<open>10000000 div 16 = 625000\<close> is below it), so the computation produces exactly 10
  ranges: ten ranges of 1,000,000 bytes with \<open>min_chunk_size = 1,000,000\<close>, and with the
  constant of the source (1,048,576) nine ranges of 1,048,576 bytes followed by
  \<open>[9437184, 9999999]\<close>.
\<close>

theorem compute_chunks_scenario:
  "compute_chunks_with 1000000 6000000 16 10000000 =
     [(0, 999999), (1000000, 1999999), (2000000, 2999999), (3000000, 3999999),
      (4000000, 4999999), (5000000, 5999999), (6000000, 6999999), (7000000, 7999999),
      (8000000, 8999999), (9000000, 9999999)]
   \<and> compute_chunks 6000000 16 10000000 =
     [(0, 1048575), (1048576, 2097151), (2097152, 3145727), (3145728, 4194303),
      (4194304, 5242879), (5242880, 6291455), (6291456, 7340031), (7340032, 8388607),
      (8388608, 9437183), (9437184, 9999999)]"
  by (simp add: compute_chunks_def min_chunk_size_def compute_chunks_with_def
      effective_chunk_size_def chunks_of_def py_range.simps)

section \<open>Properties of _download_chunk\<close>

lemma download_chunk_transport_errors:
  "download_chunk always_raises start end' file_path fs = Some (False, fs, 3)"
  by (simp add: download_chunk_def always_raises_def download_chunk_loop.simps max_retries_def)

lemma loop_bad_status_diverges:
  assumes "download_chunk_loop responses start file_path requests retry_count fs = Some y"
  shows "\<not> (retry_count < max_retries
          \<and> (\<forall>n. \<exists>status_code chunks breaks.
                 responses n = Answers status_code chunks breaks
                 \<and> status_code \<noteq> 200 \<and> status_code \<noteq> 206))"
proof (rule download_chunk_loop.raw_induct
    [where P = "\<lambda>responses start file_path requests retry_count fs y.
       \<not> (retry_count < max_retries
          \<and> (\<forall>n. \<exists>status_code chunks breaks.
                 responses n = Answers status_code chunks breaks
                 \<and> status_code \<noteq> 200 \<and> status_code \<noteq> 206))", OF _ assms],
    goal_cases)
  case (1 loop responses start file_path requests retry_count fs y)
  show ?case
  proof
    assume a: "retry_count < max_retries
          \<and> (\<forall>n. \<exists>status_code chunks breaks.
                 responses n = Answers status_code chunks breaks
                 \<and> status_code \<noteq> 200 \<and> status_code \<noteq> 206)"
    then obtain status_code chunks breaks where
      r: "responses requests = Answers status_code chunks breaks"
         "status_code \<noteq> 200" "status_code \<noteq> 206"
      by blast
    with a 1(2) have "loop responses start file_path (requests + 1) retry_count fs = Some y"
      by simp
    from 1(1) [OF this] a show False by blast
  qed
qed

text \<open>
  C4 claims that \<^verbatim>\<open>_download_chunk\<close> ends after at most 3 attempts and returns False
  also when the server answers with a status other than 200 or 206. The code does not:
  against a server that answers every request with status 404 the call never returns
  (nor does it against any server that answers every request with a status other than
  200 and 206, see \<open>loop_bad_status_diverges\<close>; a transport error on every request, in
  contrast, ends it after 3 requests, see \<open>download_chunk_transport_errors\<close>).
\<close>

theorem download_chunk_bad_status_never_returns:
  "download_chunk always_404 start end' file_path fs = None"
proof (cases "download_chunk always_404 start end' file_path fs")
  case None
  then show ?thesis .
next
  case (Some y)
  then have l: "download_chunk_loop (\<lambda>n. Answers 404 [] False) start file_path 0 0 fs = Some y"
    by (simp add: download_chunk_def always_404_def)
  have bad: "\<forall>n. \<exists>status_code chunks breaks.
      (\<lambda>n. Answers 404 [] False) n = Answers status_code chunks breaks
      \<and> status_code \<noteq> 200 \<and> status_code \<noteq> 206"
    by (intro allI exI [of _ 404] exI [of _ "[]"] exI [of _ False]) simp
  have "(0::nat) < max_retries"
    by (simp add: max_retries_def)
  with loop_bad_status_diverges [OF l] bad have False
    by blast
  then show ?thesis ..
qed

lemma length_write_at: "length (write_at f pos data) = max (length f) (pos + length data)"
  by (auto simp add: write_at_def)

lemma write_at_append:
  "write_at (write_at f pos c) (pos + length c) d = write_at f pos (c @ d)"
proof -
  define p where "p = take pos f @ replicate (pos - length f) 0"
  have lp: "length p = pos" by (auto simp add: p_def)
  have g: "write_at f pos c = (p @ c) @ drop (pos + length c) f"
    by (simp add: write_at_def p_def)
  have lg: "pos + length c \<le> length (write_at f pos c)"
    by (simp add: length_write_at)
  have t: "take (pos + length c) (write_at f pos c) = p @ c"
    unfolding g using lp by simp
  have dr: "drop (pos + length c + length d) (write_at f pos c)
      = drop (pos + length c + length d) f"
    unfolding g using lp by (simp add: add.commute add.left_commute)
  have "write_at (write_at f pos c) (pos + length c) d
      = (p @ c) @ d @ drop (pos + length c + length d) f"
    using lg by (simp add: write_at_def [of "write_at f pos c"] t dr)
  also have "\<dots> = write_at f pos (c @ d)"
    by (simp add: write_at_def p_def add.assoc)
  finally show ?thesis .
qed

lemma write_chunks_concat:
  "write_chunks f pos chunks = (if concat chunks = [] then f else write_at f pos (concat chunks))"
proof (induction chunks arbitrary: f pos)
  case Nil
  show ?case by simp
next
  case (Cons c chunks)
  show ?case
  proof (cases "c = []")
    case True
    then show ?thesis by (simp add: Cons.IH)
  next
    case False
    note nonempty = this
    show ?thesis
    proof (cases "concat chunks = []")
      case True
      with nonempty show ?thesis by (simp add: Cons.IH del: concat_eq_Nil_conv)
    next
      case False
      with nonempty show ?thesis
        by (simp add: Cons.IH write_at_append del: concat_eq_Nil_conv)
    qed
  qed
qed

lemma write_chunks_length: "length f \<le> length (write_chunks f pos chunks)"
  by (simp add: write_chunks_concat length_write_at)

lemma write_at_inside:
  "pos + length data \<le> length f \<Longrightarrow>
   write_at f pos data = take pos f @ data @ drop (pos + length data) f"
  by (simp add: write_at_def)

lemma download_chunk_loop_success:
  assumes "responses requests = Answers status_code chunks False"
    and "status_code = 200 \<or> status_code = 206"
    and "0 \<le> start"
    and "fs file_path = Some f"
    and "retry_count < max_retries"
  shows "download_chunk_loop responses start file_path requests retry_count fs
       = Some (True, fs(file_path \<mapsto> write_chunks f (nat start) chunks), requests + 1)"
  using assms
  by (auto simp add: download_chunk_loop.simps [of responses start file_path requests retry_count fs])

text \<open>
  C8, as stated: on a successful attempt \<^verbatim>\<open>_download_chunk\<close> writes exactly the bytes
  of the requested range \<open>[start, end]\<close> at offset \<open>start\<close> and never resizes the file,
  for every accepted answer (200 or 206). It does not: a server that ignores the range
  and answers 200 with its whole resource of four bytes gets all four bytes written from
  offset 2 of a file of four bytes, for the requested range \<open>[2, 3]\<close>; the file grows to
  six bytes.
\<close>

theorem download_chunk_range_counterexample:
  "chunk_outcome ''f'' (download_chunk whole_body_server 2 3 ''f'' four_zero_bytes)
     = Some (True, Some [0, 0, 1, 2, 3, 4])"
  by (simp add: whole_body_server_def four_zero_bytes_def chunk_outcome_def download_chunk_def
      download_chunk_loop.simps [of _ _ _ 0 0] max_retries_def write_at_def)

text \<open>
  C8, amended: on a successful attempt, the first one or one after failed attempts (the
  answer has status 200 or 206, the stream is delivered whole, the destination exists
  at that moment with contents \<open>f\<close>), \<^verbatim>\<open>_download_chunk\<close> returns True and has
  written the whole body of the answer, whatever its length, at offset \<open>start\<close>: the
  bytes before \<open>start\<close> and those after the written region are kept (an empty body
  changes nothing). The file is never shortened; it grows exactly when the body runs past
  its end. When the body has exactly \<open>end - start + 1\<close> bytes and \<open>end\<close> lies inside the
  file, exactly the bytes of \<open>[start, end]\<close> are replaced and the length stays.
\<close>

theorem download_chunk_writes_body:
  assumes "responses requests = Answers status_code chunks False"
    and "status_code = 200 \<or> status_code = 206"
    and "0 \<le> start"
    and "fs file_path = Some f"
    and "retry_count < max_retries"
  shows "download_chunk_loop responses start file_path requests retry_count fs
       = Some (True, fs(file_path \<mapsto> write_chunks f (nat start) chunks), requests + 1)
     \<and> write_chunks f (nat start) chunks
       = (if concat chunks = [] then f
          else take (nat start) f @ replicate (nat start - length f) 0 @ concat chunks
               @ drop (nat start + length (concat chunks)) f)
     \<and> length f \<le> length (write_chunks f (nat start) chunks)
     \<and> length (write_chunks f (nat start) chunks)
       = (if concat chunks = [] then length f
          else max (length f) (nat start + length (concat chunks)))
     \<and> (start \<le> end' \<and> int (length (concat chunks)) = end' - start + 1
          \<and> end' < int (length f) \<longrightarrow>
          write_chunks f (nat start) chunks
            = take (nat start) f @ concat chunks @ drop (nat end' + 1) f
          \<and> length (write_chunks f (nat start) chunks) = length f)"
proof -
  have a: "download_chunk_loop responses start file_path requests retry_count fs
       = Some (True, fs(file_path \<mapsto> write_chunks f (nat start) chunks), requests + 1)"
    using assms by (rule download_chunk_loop_success)
  have b: "write_chunks f (nat start) chunks
       = (if concat chunks = [] then f
          else take (nat start) f @ replicate (nat start - length f) 0 @ concat chunks
               @ drop (nat start + length (concat chunks)) f)"
    by (simp add: write_chunks_concat write_at_def)
  have c: "length f \<le> length (write_chunks f (nat start) chunks)"
    by (rule write_chunks_length)
  have d: "length (write_chunks f (nat start) chunks)
       = (if concat chunks = [] then length f
          else max (length f) (nat start + length (concat chunks)))"
    by (simp add: write_chunks_concat length_write_at)
  have e: "write_chunks f (nat start) chunks
            = take (nat start) f @ concat chunks @ drop (nat end' + 1) f
          \<and> length (write_chunks f (nat start) chunks) = length f"
    if h: "start \<le> end' \<and> int (length (concat chunks)) = end' - start + 1
          \<and> end' < int (length f)"
  proof -
    from h have "0 < int (length (concat chunks))" by linarith
    then have "0 < length (concat chunks)" by linarith
    then have ne: "concat chunks \<noteq> []" by (simp del: concat_eq_Nil_conv)
    from h assms(3) have n: "nat start + length (concat chunks) = nat end' + 1" by linarith
    from h assms(3) have "nat end' + 1 \<le> length f" by linarith
    with n have "nat start + length (concat chunks) \<le> length f" by simp
    with ne n show ?thesis
      by (simp add: write_chunks_concat write_at_inside length_write_at del: concat_eq_Nil_conv)
  qed
  from a b c d e show ?thesis by blast
qed

text \<open>
  The call \<^verbatim>\<open>_download_chunk(url, 2, 3, 'f', pbar)\<close> against the server whose first
  connection fails: the second request, made with \<open>retry_count = 1\<close>, succeeds and
  replaces exactly the bytes 2 and 3 of the file of four bytes.
\<close>

theorem download_chunk_writes_body_witness:
  "chunk_outcome ''f'' (download_chunk flaky_server 2 3 ''f'' four_zero_bytes)
     = Some (True, Some [0, 0, 7, 8])"
proof -
  have first: "download_chunk flaky_server 2 3 ''f'' four_zero_bytes
      = download_chunk_loop (flaky_server (2, 3)) 2 ''f'' 1 1 four_zero_bytes"
    by (simp add: download_chunk_def flaky_server_def max_retries_def
        download_chunk_loop.simps [of _ _ _ 0 0])
  have r: "flaky_server (2, 3) 1 = Answers 206 [ [7], [8] ] False"
    by (simp add: flaky_server_def)
  have s: "(206::int) = 200 \<or> (206::int) = 206" by simp
  have p: "(0::int) \<le> 2" by simp
  have f: "four_zero_bytes ''f'' = Some [0, 0, 0, 0]"
    by (simp add: four_zero_bytes_def)
  have m: "(1::nat) < max_retries"
    by (simp add: max_retries_def)
  from download_chunk_writes_body
      [where responses = "flaky_server (2, 3)" and requests = 1 and status_code = 206
        and chunks = "[ [7], [8] ]" and start = 2 and fs = four_zero_bytes
        and file_path = "''f''" and f = "[0, 0, 0, 0]" and retry_count = 1 and end' = 3,
       OF r s p f m]
    first
  show ?thesis
    by (simp add: chunk_outcome_def four_zero_bytes_def)
qed

section \<open>Properties of download_file\<close>

lemma download_chunk_loop_keeps_file:
  assumes "download_chunk_loop responses start file_path requests retry_count fs = Some y"
  shows "fs p \<noteq> None \<longrightarrow> fst (snd y) p \<noteq> None"
proof (rule download_chunk_loop.raw_induct
    [where P = "\<lambda>responses start file_path requests retry_count fs y.
       fs p \<noteq> None \<longrightarrow> fst (snd y) p \<noteq> None", OF _ assms],
    goal_cases)
  case (1 loop responses start file_path requests retry_count fs y)
  show ?case
  proof
    assume ex: "fs p \<noteq> None"
    show "fst (snd y) p \<noteq> None"
    proof (cases "retry_count < max_retries")
      case False
      with 1(2) ex show ?thesis by auto
    next
      case True
      note lt = this
      show ?thesis
      proof (cases "responses requests")
        case Raises
        with 1(2) lt have "loop responses start file_path (requests + 1) (retry_count + 1) fs = Some y"
          by simp
        from 1(1) [OF this] ex show ?thesis by simp
      next
        case (Answers status_code chunks breaks)
        show ?thesis
        proof (cases "status_code = 200 \<or> status_code = 206")
          case False
          with 1(2) lt Answers
          have "loop responses start file_path (requests + 1) retry_count fs = Some y"
            by simp
          from 1(1) [OF this] ex show ?thesis by simp
        next
          case True
          note ok = this
          show ?thesis
          proof (cases "if start < 0 then None else fs file_path")
            case None
            with 1(2) lt Answers ok
            have "loop responses start file_path (requests + 1) (retry_count + 1) fs = Some y"
              by simp
            from 1(1) [OF this] ex show ?thesis by simp
          next
            case (Some f)
            let ?fs = "fs(file_path \<mapsto> write_chunks f (nat start) chunks)"
            have ex': "?fs p \<noteq> None" using ex by simp
            show ?thesis
            proof (cases breaks)
              case True
              with 1(2) lt Answers ok Some
              have "loop responses start file_path (requests + 1) (retry_count + 1) ?fs = Some y"
                by simp
              from 1(1) [OF this] ex' show ?thesis by blast
            next
              case False
              with 1(2) lt Answers ok Some have "y = (True, ?fs, requests + 1)"
                by simp
              with ex' show ?thesis by simp
            qed
          qed
        qed
      qed
    qed
  qed
qed

lemma run_chunks_keeps_file:
  "run_chunks server save_path chunks fs = Some (results, fs') \<Longrightarrow> fs p \<noteq> None \<Longrightarrow> fs' p \<noteq> None"
proof (induction chunks arbitrary: fs results)
  case Nil
  then show ?case by simp
next
  case (Cons ch chunks)
  obtain s e where ch: "ch = (s, e)" by (cases ch)
  from Cons.prems(1) ch obtain ok fs1 n rest where
    d: "download_chunk server s e save_path fs = Some (ok, fs1, n)" and
    r: "run_chunks server save_path chunks fs1 = Some (rest, fs')"
    by (auto split: option.splits)
  from d have "download_chunk_loop (server (s, e)) s save_path 0 0 fs = Some (ok, fs1, n)"
    by (simp add: download_chunk_def)
  from download_chunk_loop_keeps_file [OF this, of p] Cons.prems(2) have "fs1 p \<noteq> None"
    by simp
  from Cons.IH [OF r this] show ?case .
qed

lemma download_file_chunked_keeps_file:
  assumes "head_response w = HeadAnswers 200 (Length total_size)"
    and "0 < total_size" and "total_size \<le> max_file_size" and "0 < num_threads"
    and "download_file num_threads chunk_size max_file_size w save_path fs = Some (ok, fs')"
  shows "fs' save_path \<noteq> None"
proof -
  from assms obtain results where
    "run_chunks (range_responses w) save_path (compute_chunks chunk_size num_threads total_size)
       (fs(save_path \<mapsto> replicate (nat total_size) 0)) = Some (results, fs')"
    by (auto simp add: download_file_def split: option.splits)
  from run_chunks_keeps_file [OF this, of save_path] show ?thesis by simp
qed

text \<open>
  C2 claims that the destination does not exist after \<^verbatim>\<open>download_file\<close> has reported
  failure, in particular after a chunk fetch has exhausted its retries. The code removes
  the destination only in its \<^verbatim>\<open>except\<close> branch; \<^verbatim>\<open>return all(results)\<close> returns
  False and leaves the pre-allocated file: for a resource of four bytes whose one chunk
  fails three times with a transport error, the call returns False and the destination
  is there, with its four zero bytes. (Whenever the chunked path returns, with True or
  with False, the destination exists: \<open>download_file_chunked_keeps_file\<close>. The system
  here accepts files of up to \<open>2 ^ 40\<close> bytes.)
\<close>

theorem download_file_failure_keeps_file:
  "file_outcome ''f''
     (download_file 16 (4 * 1024 * 1024) (2 ^ 40) failing_web ''f'' Map.empty)
     = Some (False, Some [0, 0, 0, 0])"
  by (simp add: file_outcome_def download_file_def failing_web_def compute_chunks_def
      min_chunk_size_def compute_chunks_with_def effective_chunk_size_def chunks_of_def
      py_range.simps download_chunk_def always_raises_def download_chunk_loop.simps
      max_retries_def numeral_eq_Suc)

section \<open>Properties of the version ledger\<close>

text \<open>
  C7: loading the ledger never raises. Whatever the state of the history file,
  \<^verbatim>\<open>_load_history\<close> returns normally; when the file is absent, unreadable or
  unparsable the ledger is the empty ledger, and a stored ledger is loaded as it is.
\<close>

theorem load_history_total:
  "(\<exists>c'. load_history c = Inr c')
   \<and> load_history (c\<lparr>history_file := Absent\<rparr>)
       = Inr (c\<lparr>history_file := Absent, version_history := empty_ledger\<rparr>)
   \<and> load_history (c\<lparr>history_file := Unreadable\<rparr>)
       = Inr (c\<lparr>history_file := Unreadable, version_history := empty_ledger\<rparr>)
   \<and> load_history (c\<lparr>history_file := Unparsable\<rparr>)
       = Inr (c\<lparr>history_file := Unparsable, version_history := empty_ledger\<rparr>)
   \<and> load_history (c\<lparr>history_file := Stored l\<rparr>)
       = Inr (c\<lparr>history_file := Stored l, version_history := l\<rparr>)"
  by (cases "history_file c") (simp_all add: load_history_def read_history_def)

lemma records_of_update [simp]: "records_of (AList.update k rs h) k = rs"
  by (simp add: records_of_def update_conv')





























section \<open>Properties of the URL check and of the update decision\<close>

text \<open>
  C9: \<^verbatim>\<open>_verify_download_url\<close> is total. For every URL it returns normally, and it
  returns True if and only if the HEAD request completes with status code 200.
\<close>

theorem verify_download_url_total:
  "(\<exists>ok. verify_download_url heads url = Inr ok)
   \<and> (verify_download_url heads url = Inr True) = (\<exists>len. heads url = HeadAnswers 200 len)"
  by (cases "heads url") (auto simp add: verify_download_url_def requests_head_def)

lemma macos_first_attempt:
  assumes "mac_pages env 0 = Parsed v b d (Some u)"
  shows "get_macos_version env =
     (if macos_skip (load_local (mac_yaml env)) v b
      then (ReturnLocal (local_dict (load_local (mac_yaml env))), [])
      else (Recorded (macos_result v b u (mac_now env) d
              (if download_ok env u (''downloads/macos/'' @ generate_filename ''macOS'' v (Some b) d)
               then Some (''downloads/macos/'' @ generate_filename ''macOS'' v (Some b) d,
                          file_hash env (''downloads/macos/'' @ generate_filename ''macOS'' v (Some b) d))
               else None)),
            [(u, ''downloads/macos/'' @ generate_filename ''macOS'' v (Some b) d)]))"
  using assms
  by (simp add: get_macos_version_def macos_loop.simps [of _ _ 0] max_retries_def Let_def)

text \<open>
  C5 claims that the update decision returns the local record (a skip) exactly when that
  record has the version just discovered. \<^verbatim>\<open>_get_macos_version\<close> decides so (see
  \<open>macos_first_attempt\<close>). \<^verbatim>\<open>_get_windows_version\<close> does not: its comparison with the
  local record stands only in the branch of the built-in fallback version. With a local
  record of version 21915 and a discovery that yields 21915, it does not return the local
  record: it builds a fresh record with a new \<open>update_time\<close> and passes it to
  \<^verbatim>\<open>_update_history\<close>; it calls \<^verbatim>\<open>download_file\<close> in no case.
\<close>

theorem get_windows_version_no_skip:
  "get_windows_version win_same_version =
     (Recorded [(''platform'', JStr ''Windows''), (''version'', JStr ''21915''),
        (''download_url'',
         JStr ''https://official-package.wpscdn.cn/wps/download/WPS_Setup_X64_21915.exe''),
        (''update_time'', JStr ''2025-06-20 10:00:00'')], [])"
  by (simp add: get_windows_version_def win_same_version_def load_local_def baoku_discovery_def
      falsy_def verified_def verify_download_url_def requests_head_def windows_result_def
      or_unknown_def windows_download_base_url_def Let_def)

end
